theory Spec2Isabelle
  imports Complex_Main "HOL-Library.Char_ord" "HOL-Library.List_Lexorder"
begin

section \<open>Strings\<close>

text \<open>
  Python strings are modelled as \<open>string\<close> (lists of 8-bit characters), so the
  string methods below are the ASCII part of Python's \<open>str.upper\<close> and
  \<open>str.strip\<close>: country codes and subject labels are ASCII text. Characters outside
  ASCII are left as they are by \<open>upper\<close> and are never whitespace.
\<close>

definition upper_char :: "char \<Rightarrow> char" where
  "upper_char c =
     (if CHR ''a'' \<le> c \<and> c \<le> CHR ''z'' then char_of (of_char c - (32::nat)) else c)"

definition upper :: "string \<Rightarrow> string" where
  "upper s = map upper_char s"

text \<open>
  The ASCII characters for which \<open>str.isspace\<close> holds: tab, line feed, vertical tab,
  form feed, carriage return, the four separators 0x1c to 0x1f, and the space.
\<close>

definition isspace :: "char \<Rightarrow> bool" where
  "isspace c = (c \<in> set [CHR 0x09, CHR 0x0A, CHR 0x0B, CHR 0x0C, CHR 0x0D,
                           CHR 0x1C, CHR 0x1D, CHR 0x1E, CHR 0x1F, CHR '' ''])"

definition strip :: "string \<Rightarrow> string" where
  "strip s = rev (dropWhile isspace (rev (dropWhile isspace s)))"

text \<open>\<open>s.replace('"', '', regex=False)\<close>: every double quote is removed.\<close>

definition remove_quotes :: "string \<Rightarrow> string" where
  "remove_quotes s = filter (\<lambda>c. c \<noteq> CHR 0x22) s"

section \<open>The distance calculator (code_geo.py)\<close>

subsection \<open>The reference table\<close>

text \<open>
  A row of the data frame \<open>df\<close>, restricted to the three columns the module reads:
  "Alpha-3 code", "Latitude (average)" and "Longitude (average)". Python floats are
  modelled as real numbers, so the formula is the one the code writes, without IEEE
  rounding.
\<close>

record country_row =
  alpha3 :: string
  latitude :: real
  longitude :: real

text \<open>
  The module-level normalisation of the code column:
  \<open>.astype(str).str.replace('"', '', regex=False).str.strip()\<close>. The two coordinate
  columns are parsed to floats by pandas; the rows below carry the parsed numbers.
  The code column is not uppercased.
\<close>

definition normalize_code :: "string \<Rightarrow> string" where
  "normalize_code s = strip (remove_quotes s)"

definition load_table :: "country_row list \<Rightarrow> country_row list" where
  "load_table raw = map (\<lambda>r. r\<lparr>alpha3 := normalize_code (alpha3 r)\<rparr>) raw"

subsection \<open>haversine\<close>

datatype py_error = ValueError | IndexError

text \<open>\<open>math.radians\<close>, and the two functions of \<open>math\<close> that raise
  \<open>ValueError\<close> ("math domain error") outside their domain.\<close>

definition radians :: "real \<Rightarrow> real" where
  "radians x = x * pi / 180"

definition math_sqrt :: "real \<Rightarrow> py_error + real" where
  "math_sqrt x = (if x < 0 then Inl ValueError else Inr (sqrt x))"

definition math_asin :: "real \<Rightarrow> py_error + real" where
  "math_asin x = (if x < - 1 \<or> 1 < x then Inl ValueError else Inr (arcsin x))"

text \<open>
  The intermediate quantity \<open>a\<close> of \<open>haversine\<close>, as the formula over the real
  numbers. The code computes it in IEEE doubles, and the two differ by rounding: over
  the reals \<open>a\<close> never exceeds 1, in doubles it can come out just above 1 for nearly
  antipodal points, and then \<open>math.asin\<close> raises. Only the literal case of C6, which
  is stated in exact real arithmetic, is evaluated with this formula; the other
  properties below leave the result of \<open>haversine\<close> open.
\<close>

definition haversine_a :: "real \<Rightarrow> real \<Rightarrow> real \<Rightarrow> real \<Rightarrow> real" where
  "haversine_a lat1 lon1 lat2 lon2 =
     (let dlat = radians (lat2 - lat1);
          dlon = radians (lon2 - lon1)
      in (sin (dlat / 2))\<^sup>2 +
         cos (radians lat1) * cos (radians lat2) * (sin (dlon / 2))\<^sup>2)"

definition haversine :: "real \<Rightarrow> real \<Rightarrow> real \<Rightarrow> real \<Rightarrow> py_error + real" where
  "haversine lat1 lon1 lat2 lon2 =
     (let R = 6371;
          a = haversine_a lat1 lon1 lat2 lon2
      in case math_sqrt a of
           Inl e \<Rightarrow> Inl e
         | Inr r \<Rightarrow>
             (case math_asin r of
                Inl e \<Rightarrow> Inl e
              | Inr s \<Rightarrow> Inr (R * (2 * s))))"

subsection \<open>compute_distance\<close>

text \<open>
  \<open>compute_distance\<close> returns either a string or a float; \<open>Str\<close> and \<open>Num\<close> are the
  two dynamic types of the result.
\<close>

datatype result = Str string | Num real

definition equal_msg :: string where
  "equal_msg = ''They are equal''"

text \<open>The f-string \<open>f"{iso1} or {iso2} doesn't exist"\<close>.\<close>

definition not_found_msg :: "string \<Rightarrow> string \<Rightarrow> string" where
  "not_found_msg iso1 iso2 = iso1 @ '' or '' @ iso2 @ '' doesn't exist''"

text \<open>The column \<open>df["Alpha-3 code"].values\<close>.\<close>

definition codes :: "country_row list \<Rightarrow> string list" where
  "codes df = map alpha3 df"

text \<open>
  \<open>df.loc[df["Alpha-3 code"] == iso, [...]].values[0]\<close>: the rows whose code equals
  the given one, and the first of them; indexing an empty selection raises \<open>IndexError\<close>.
\<close>

definition loc_first :: "country_row list \<Rightarrow> string \<Rightarrow> py_error + country_row" where
  "loc_first df c =
     (case filter (\<lambda>r. alpha3 r = c) df of
        [] \<Rightarrow> Inl IndexError
      | r # _ \<Rightarrow> Inr r)"

definition compute_distance :: "country_row list \<Rightarrow> string \<Rightarrow> string \<Rightarrow> py_error + result" where
  "compute_distance df iso1 iso2 =
     (let iso1 = upper iso1; iso2 = upper iso2
      in if iso1 = iso2 then Inr (Str equal_msg)
         else if iso1 \<notin> set (codes df) \<or> iso2 \<notin> set (codes df)
           then Inr (Str (not_found_msg iso1 iso2))
         else
           (case loc_first df iso1 of
              Inl e \<Rightarrow> Inl e
            | Inr r1 \<Rightarrow>
                (case loc_first df iso2 of
                   Inl e \<Rightarrow> Inl e
                 | Inr r2 \<Rightarrow>
                     (case haversine (latitude r1) (longitude r1)
                                     (latitude r2) (longitude r2) of
                        Inl e \<Rightarrow> Inl e
                      | Inr d \<Rightarrow> Inr (Num d)))))"

section \<open>The co-mention helpers (plot.py)\<close>

subsection \<open>The data frame and the counter\<close>

text \<open>
  A row of the corpus data frame, restricted to the two columns the functions read.
  A cell of the list column is a Python list (or tuple) of country codes, or missing
  (\<open>None\<close>/NaN), which is \<open>None\<close> here; a cell of the subject column is a string
  or missing.
\<close>

record mention_row =
  countries_mentioned_list :: "string list option"
  subjareas :: "string option"

text \<open>\<open>Series.dropna()\<close>: the cells that are not missing, in order.\<close>

definition dropna :: "'a option list \<Rightarrow> 'a list" where
  "dropna col = List.map_filter (\<lambda>cell. cell) col"

text \<open>
  A \<open>collections.Counter\<close> is a dictionary in insertion order: an association list
  with one entry per key. \<open>counter[k] += 1\<close> reads 0 for an absent key and appends the
  key; for a present key it updates the entry in place.
\<close>

type_synonym 'k counter = "('k \<times> nat) list"

fun incr :: "'k \<Rightarrow> 'k counter \<Rightarrow> 'k counter" where
  "incr k [] = [(k, 1)]"
| "incr k ((k', n) # c) = (if k = k' then (k', n + 1) # c else (k', n) # incr k c)"

definition get_count :: "'k counter \<Rightarrow> 'k \<Rightarrow> nat" where
  "get_count c k = (case map_of c k of None \<Rightarrow> 0 | Some n \<Rightarrow> n)"

definition keys :: "'k counter \<Rightarrow> 'k set" where
  "keys c = fst ` set c"

subsection \<open>Counting co-mentions\<close>

text \<open>\<open>itertools.combinations(uniq, 2)\<close>: the pairs of positions \<open>i < j\<close>, in
  lexicographic order of the positions.\<close>

fun combinations2 :: "'a list \<Rightarrow> ('a \<times> 'a) list" where
  "combinations2 [] = []"
| "combinations2 (x # xs) = map (Pair x) xs @ combinations2 xs"

text \<open>
  The body of the counting loop, for one list \<open>lst\<close>:
  \<^verbatim>\<open>
  uniq = sorted(set(lst))
  for a, b in combinations(uniq, 2):
      counter[(a, b)] += 1
  \<close>
\<close>

definition count_record :: "string list \<Rightarrow> (string \<times> string) counter \<Rightarrow> (string \<times> string) counter" where
  "count_record lst counter =
     (let uniq = sorted_list_of_set (set lst)
      in fold incr (combinations2 uniq) counter)"

text \<open>
  The counting loop itself, which \<open>plot_top_country_pairs\<close> and
  \<open>plot_country_network\<close> both start with, over \<open>df[list_col].dropna()\<close> and from an
  empty counter. What the two functions do with the counter afterwards is drawing.
\<close>

definition count_co_mentions :: "mention_row list \<Rightarrow> (string \<times> string) counter" where
  "count_co_mentions df = fold count_record (dropna (map countries_mentioned_list df)) []"

subsection \<open>plot_pair_mentions_by_subject\<close>

text \<open>What the function does besides returning: it prints a line, or it shows a bar
  chart (with its title and the series it plots).\<close>

datatype event = Print string | BarChart string "string counter"

text \<open>The filter \<open>isinstance(lst, (list,tuple)) and c1 in lst and c2 in lst\<close>.\<close>

definition mentions_both :: "string \<Rightarrow> string \<Rightarrow> string list option \<Rightarrow> bool" where
  "mentions_both c1 c2 cell =
     (case cell of None \<Rightarrow> False | Some lst \<Rightarrow> c1 \<in> set lst \<and> c2 \<in> set lst)"

text \<open>\<open>entry.split(',')\<close>: the pieces between the commas; the empty string gives one
  empty piece, so the result is never the empty list.\<close>

fun split_comma :: "string \<Rightarrow> string list" where
  "split_comma [] = [[]]"
| "split_comma (c # cs) =
     (if c = CHR '','' then [] # split_comma cs
      else (case split_comma cs of
              [] \<Rightarrow> [[c]]
            | w # ws \<Rightarrow> (c # w) # ws))"

text \<open>
  The inner loop over one entry of the subject column:
  \<^verbatim>\<open>
  for subj in entry.split(','):
      subj = subj.strip()
      if subj:
          counter[subj] += 1
  \<close>
\<close>

definition count_entry :: "string \<Rightarrow> string counter \<Rightarrow> string counter" where
  "count_entry entry counter =
     fold (\<lambda>subj counter.
             (let subj = strip subj
              in if subj \<noteq> [] then incr subj counter else counter))
          (split_comma entry) counter"

text \<open>Steps 1 and 2 of the function: the rows that mention both codes, and the
  counter of the subject labels of their entries that are not missing.\<close>

definition count_pair_subjects :: "mention_row list \<Rightarrow> string \<Rightarrow> string \<Rightarrow> string counter" where
  "count_pair_subjects df c1 c2 =
     (let df_pair = filter (\<lambda>r. mentions_both c1 c2 (countries_mentioned_list r)) df
      in fold count_entry (dropna (map subjareas df_pair)) [])"

definition no_records_msg :: "string \<Rightarrow> string \<Rightarrow> string" where
  "no_records_msg c1 c2 = ''No records found mentioning both '' @ c1 @ '' and '' @ c2 @ ''.''"

definition chart_title :: "string \<Rightarrow> string \<Rightarrow> string" where
  "chart_title c1 c2 = ''Papers mentioning both '' @ upper c1 @ '' & '' @ upper c2 @ '' by Subject''"

text \<open>\<open>Series.head(n)\<close>: the first \<open>n\<close> entries, or for a negative \<open>n\<close> all but the
  last \<open>-n\<close>.\<close>

definition head :: "int \<Rightarrow> 'a list \<Rightarrow> 'a list" where
  "head n xs = (if 0 \<le> n then take (nat n) xs else take (length xs - nat (- n)) xs)"

text \<open>
  The function returns a series (the entries of the counter, in the order of the
  series) and has the effects listed in the second component. The parameter
  \<open>sort_values\<close> is pandas' \<open>Series.sort_values(ascending=False)\<close>, whose order among
  equal counts is the library's; \<open>top_n\<close> is \<open>None\<close> or an integer, and \<open>if top_n\<close>
  is false for both \<open>None\<close> and 0.
\<close>

definition plot_pair_mentions_by_subject ::
  "(string counter \<Rightarrow> string counter) \<Rightarrow> mention_row list \<Rightarrow> string \<times> string \<Rightarrow> int option
     \<Rightarrow> string counter \<times> event list" where
  "plot_pair_mentions_by_subject sort_values df country_pair top_n =
     (case country_pair of (c1, c2) \<Rightarrow>
        (let counter = count_pair_subjects df c1 c2
         in if counter = [] then ([], [Print (no_records_msg c1 c2)])
            else
              (let subj_series = sort_values counter;
                   subj_series =
                     (case top_n of
                        None \<Rightarrow> subj_series
                      | Some n \<Rightarrow> if n \<noteq> 0 then head n subj_series else subj_series)
               in (subj_series, [BarChart (chart_title c1 c2) subj_series]))))"

section \<open>Properties of the distance calculator\<close>

subsection \<open>The error branch of haversine\<close>

text \<open>
  When the computed \<open>a\<close> is above 1, \<open>math.sqrt\<close> returns a number above 1 and
  \<open>math.asin\<close> raises \<open>ValueError\<close>. The value \<open>1 + 1 / 2 ^ 51\<close> is the double
  1.0000000000000004.
\<close>

lemma asin_raises_above_one:
  assumes "1 < a"
  shows "(case math_sqrt a of Inl e \<Rightarrow> Inl e | Inr r \<Rightarrow> math_asin r) = Inl ValueError"
proof -
  have "1 < sqrt a"
    using assms by simp
  then show ?thesis
    using assms by (simp add: math_sqrt_def math_asin_def)
qed

lemma asin_raises_at_rounded_value:
  "(case math_sqrt (1 + 1 / 2 ^ 51) of Inl e \<Rightarrow> Inl e | Inr r \<Rightarrow> math_asin r)
     = Inl ValueError"
  by (rule asin_raises_above_one) simp

subsection \<open>Concrete codes\<close>

lemma upper_usa: "upper ''usa'' = ''USA''"
  by code_simp

lemma upper_USA: "upper ''USA'' = ''USA''"
  by code_simp

lemma upper_Usa: "upper ''Usa'' = ''USA''"
  by code_simp

lemma upper_CAN: "upper ''CAN'' = ''CAN''"
  by code_simp

lemma upper_can: "upper ''can'' = ''CAN''"
  by code_simp

lemma upper_ZZZ: "upper ''ZZZ'' = ''ZZZ''"
  by code_simp

lemma not_found_ne_equal: "not_found_msg x y \<noteq> equal_msg"
proof
  assume "not_found_msg x y = equal_msg"
  then have "rev (not_found_msg x y) = rev equal_msg"
    by simp
  then show False
    by (simp add: not_found_msg_def equal_msg_def)
qed

subsection \<open>Lookup\<close>

lemma loc_first_found:
  assumes "c \<in> set (codes df)"
  shows "\<exists>r. loc_first df c = Inr r \<and> alpha3 r = c \<and> r \<in> set df"
proof -
  from assms obtain r0 where "r0 \<in> set df" "alpha3 r0 = c"
    by (auto simp: codes_def)
  then have "filter (\<lambda>r. alpha3 r = c) df \<noteq> []"
    by (auto simp: filter_empty_conv)
  then obtain r rs where f: "filter (\<lambda>r. alpha3 r = c) df = r # rs"
    by (cases "filter (\<lambda>r. alpha3 r = c) df") auto
  then have "r \<in> set (filter (\<lambda>r. alpha3 r = c) df)"
    by simp
  then have "alpha3 r = c" "r \<in> set df"
    by simp_all
  with f show ?thesis
    by (simp add: loc_first_def)
qed

lemma compute_distance_found:
  assumes "upper iso1 \<noteq> upper iso2"
    and "loc_first df (upper iso1) = Inr r1" and "loc_first df (upper iso2) = Inr r2"
    and "upper iso1 \<in> set (codes df)" and "upper iso2 \<in> set (codes df)"
  shows "compute_distance df iso1 iso2 =
           (case haversine (latitude r1) (longitude r1) (latitude r2) (longitude r2) of
              Inl e \<Rightarrow> Inl e
            | Inr km \<Rightarrow> Inr (Num km))"
  using assms by (simp add: compute_distance_def Let_def)

lemma codes_load_table:
  "codes (load_table raw) = map (\<lambda>r. strip (remove_quotes (alpha3 r))) raw"
  by (simp add: codes_def load_table_def normalize_code_def)

lemma normalize_USA: "normalize_code '' USA'' = ''USA''"
  by code_simp

lemma normalize_usa: "normalize_code '' usa'' = ''usa''"
  by code_simp

lemma normalize_CAN: "normalize_code ''CAN'' = ''CAN''"
  by code_simp

subsection \<open>The claims about the calculator\<close>

text \<open>
  C1 as stated fails: the result does not tell which code failed the lookup. For the
  inputs USA and ZZZ it is the same string whether the table lacks ZZZ or lacks USA.
\<close>

theorem not_found_result_counterexample:
  "upper ''USA'' \<in> set (codes [\<lparr>alpha3 = ''USA'', latitude = 38, longitude = - 97\<rparr>])
   \<and> upper ''ZZZ'' \<notin> set (codes [\<lparr>alpha3 = ''USA'', latitude = 38, longitude = - 97\<rparr>])
   \<and> upper ''USA'' \<notin> set (codes [\<lparr>alpha3 = ''ZZZ'', latitude = 0, longitude = 0\<rparr>])
   \<and> upper ''ZZZ'' \<in> set (codes [\<lparr>alpha3 = ''ZZZ'', latitude = 0, longitude = 0\<rparr>])
   \<and> compute_distance [\<lparr>alpha3 = ''USA'', latitude = 38, longitude = - 97\<rparr>] ''USA'' ''ZZZ''
       = Inr (Str ''USA or ZZZ doesn't exist'')
   \<and> compute_distance [\<lparr>alpha3 = ''ZZZ'', latitude = 0, longitude = 0\<rparr>] ''USA'' ''ZZZ''
       = Inr (Str ''USA or ZZZ doesn't exist'')"
  by (simp add: compute_distance_def codes_def upper_USA upper_ZZZ not_found_msg_def)

text \<open>
  C1, as amended: when the two uppercased codes differ and at least one of them is not
  in the table, \<open>compute_distance\<close> returns (it does not raise) the not-found string
  "<ISO1> or <ISO2> doesn't exist", which names both uppercased input codes whichever
  of them failed; it is neither the Equal result nor a number.
\<close>

theorem not_found_names_both_codes:
  assumes "upper iso1 \<noteq> upper iso2"
    and "upper iso1 \<notin> set (codes df) \<or> upper iso2 \<notin> set (codes df)"
  shows "compute_distance df iso1 iso2 = Inr (Str (not_found_msg (upper iso1) (upper iso2)))
       \<and> compute_distance df iso1 iso2 \<noteq> Inr (Str equal_msg)
       \<and> (\<forall>d. compute_distance df iso1 iso2 \<noteq> Inr (Num d))"
proof -
  have "compute_distance df iso1 iso2 = Inr (Str (not_found_msg (upper iso1) (upper iso2)))"
    using assms by (simp add: compute_distance_def Let_def)
  then show ?thesis
    using not_found_ne_equal [of "upper iso1" "upper iso2"] by simp
qed

theorem not_found_names_both_codes_witness:
  "upper ''usa'' \<noteq> upper ''ZZZ''
   \<and> upper ''ZZZ'' \<notin> set (codes [\<lparr>alpha3 = ''USA'', latitude = 38, longitude = - 97\<rparr>])
   \<and> compute_distance [\<lparr>alpha3 = ''USA'', latitude = 38, longitude = - 97\<rparr>] ''usa'' ''ZZZ''
       = Inr (Str ''USA or ZZZ doesn't exist'')"
proof -
  let ?df = "[\<lparr>alpha3 = ''USA'', latitude = 38, longitude = - 97\<rparr>]"
  have h1: "upper ''usa'' \<noteq> upper ''ZZZ''"
    by (simp add: upper_usa upper_ZZZ)
  have h2: "upper ''ZZZ'' \<notin> set (codes ?df)"
    by (simp add: upper_ZZZ codes_def)
  from h2 have h2': "upper ''usa'' \<notin> set (codes ?df) \<or> upper ''ZZZ'' \<notin> set (codes ?df)"
    by blast
  from not_found_names_both_codes [OF h1 h2']
  have "compute_distance ?df ''usa'' ''ZZZ'' = Inr (Str (not_found_msg (upper ''usa'') (upper ''ZZZ'')))"
    by blast
  then have "compute_distance ?df ''usa'' ''ZZZ'' = Inr (Str ''USA or ZZZ doesn't exist'')"
    by (simp add: upper_usa upper_ZZZ not_found_msg_def)
  with h1 h2 show ?thesis
    by blast
qed

text \<open>
  C2 as stated fails: the loader does not uppercase the table. A code stored as "usa"
  is in the loaded table and \<open>compute_distance\<close>, called with that very code, reports it
  as not found.
\<close>

theorem table_codes_not_uppercased_counterexample:
  "''usa'' \<in> set (codes (load_table [\<lparr>alpha3 = '' usa'', latitude = 38, longitude = - 97\<rparr>,
                                       \<lparr>alpha3 = ''CAN'', latitude = 60, longitude = - 95\<rparr>]))
   \<and> compute_distance (load_table [\<lparr>alpha3 = '' usa'', latitude = 38, longitude = - 97\<rparr>,
                                     \<lparr>alpha3 = ''CAN'', latitude = 60, longitude = - 95\<rparr>])
         ''usa'' ''CAN''
       = Inr (Str ''USA or CAN doesn't exist'')"
  by (simp add: load_table_def normalize_usa normalize_CAN codes_def compute_distance_def
        upper_usa upper_CAN not_found_msg_def)

text \<open>
  C2, as amended: only the lookup inputs are uppercased; the codes of the loaded table
  are the raw codes without quote characters and surrounding whitespace, in the letter
  case they have. For codes \<open>c\<close> and \<open>d\<close> that the loaded table stores in upper case,
  inputs that are \<open>c\<close> and \<open>d\<close> in any letter case resolve to the first rows holding
  \<open>c\<close> and \<open>d\<close>, and the call returns what \<open>haversine\<close> gives for the centroids of
  these two rows, a number or the error it raises.
\<close>

theorem uppercase_codes_resolve_in_any_case:
  assumes "c \<in> set (codes (load_table raw))" and "upper iso1 = c"
    and "d \<in> set (codes (load_table raw))" and "upper iso2 = d"
    and "c \<noteq> d"
  shows "codes (load_table raw) = map (\<lambda>r. strip (remove_quotes (alpha3 r))) raw
       \<and> (\<exists>r1 r2.
             loc_first (load_table raw) c = Inr r1 \<and> alpha3 r1 = c \<and>
             loc_first (load_table raw) d = Inr r2 \<and> alpha3 r2 = d \<and>
             compute_distance (load_table raw) iso1 iso2 =
               (case haversine (latitude r1) (longitude r1) (latitude r2) (longitude r2) of
                  Inl e \<Rightarrow> Inl e
                | Inr km \<Rightarrow> Inr (Num km)))"
proof -
  let ?df = "load_table raw"
  obtain r1 where r1: "loc_first ?df c = Inr r1" "alpha3 r1 = c"
    using loc_first_found [OF assms(1)] by blast
  obtain r2 where r2: "loc_first ?df d = Inr r2" "alpha3 r2 = d"
    using loc_first_found [OF assms(3)] by blast
  have ne: "upper iso1 \<noteq> upper iso2"
    using assms by simp
  have "compute_distance ?df iso1 iso2 =
          (case haversine (latitude r1) (longitude r1) (latitude r2) (longitude r2) of
             Inl e \<Rightarrow> Inl e
           | Inr km \<Rightarrow> Inr (Num km))"
    using compute_distance_found [OF ne, of ?df r1 r2] r1 r2 assms by simp
  with r1 r2 show ?thesis
    using codes_load_table [of raw] by blast
qed

theorem uppercase_codes_resolve_in_any_case_witness:
  "''USA'' \<in> set (codes (load_table
       [\<lparr>alpha3 = '' USA'', latitude = 38, longitude = - 97\<rparr>,
        \<lparr>alpha3 = ''CAN'', latitude = 60, longitude = - 95\<rparr>]))
   \<and> upper ''Usa'' = ''USA''
   \<and> ''CAN'' \<in> set (codes (load_table
       [\<lparr>alpha3 = '' USA'', latitude = 38, longitude = - 97\<rparr>,
        \<lparr>alpha3 = ''CAN'', latitude = 60, longitude = - 95\<rparr>]))
   \<and> upper ''can'' = ''CAN''
   \<and> ''USA'' \<noteq> ''CAN''
   \<and> compute_distance (load_table
         [\<lparr>alpha3 = '' USA'', latitude = 38, longitude = - 97\<rparr>,
          \<lparr>alpha3 = ''CAN'', latitude = 60, longitude = - 95\<rparr>]) ''Usa'' ''can''
       = (case haversine 38 (- 97) 60 (- 95) of
            Inl e \<Rightarrow> Inl e
          | Inr km \<Rightarrow> Inr (Num km))"
proof -
  let ?raw = "[\<lparr>alpha3 = '' USA'', latitude = 38, longitude = - 97\<rparr>,
               \<lparr>alpha3 = ''CAN'', latitude = 60, longitude = - 95\<rparr>]"
  have ld: "load_table ?raw = [\<lparr>alpha3 = ''USA'', latitude = 38, longitude = - 97\<rparr>,
                                \<lparr>alpha3 = ''CAN'', latitude = 60, longitude = - 95\<rparr>]"
    by (simp add: load_table_def normalize_USA normalize_CAN)
  have h1: "''USA'' \<in> set (codes (load_table ?raw))"
    and h3: "''CAN'' \<in> set (codes (load_table ?raw))"
    unfolding ld by (simp_all add: codes_def)
  have h5: "''USA'' \<noteq> ''CAN''"
    by simp
  have l1: "loc_first (load_table ?raw) ''USA''
              = Inr \<lparr>alpha3 = ''USA'', latitude = 38, longitude = - 97\<rparr>"
    and l2: "loc_first (load_table ?raw) ''CAN''
              = Inr \<lparr>alpha3 = ''CAN'', latitude = 60, longitude = - 95\<rparr>"
    unfolding ld by (simp_all add: loc_first_def)
  from uppercase_codes_resolve_in_any_case [OF h1 upper_Usa h3 upper_can h5]
  have "compute_distance (load_table ?raw) ''Usa'' ''can''
          = (case haversine 38 (- 97) 60 (- 95) of
               Inl e \<Rightarrow> Inl e
             | Inr km \<Rightarrow> Inr (Num km))"
    unfolding l1 l2 by auto
  with h1 h3 h5 upper_Usa upper_can show ?thesis
    by blast
qed

text \<open>
  C6: \<open>haversine(0, 0, 0, 90)\<close> is \<open>\<pi>/2 \<times> 6371.0\<close>, a quarter of the circumference
  along the equator, in exact real arithmetic.
\<close>

theorem haversine_quarter_equator: "haversine 0 0 0 90 = Inr (pi / 2 * 6371)"
proof -
  have a: "haversine_a 0 0 0 90 = 1 / 2"
  proof -
    have r: "radians 90 / 2 = pi / 4" by (simp add: radians_def)
    have "(sin (radians 90 / 2))\<^sup>2 = (sqrt 2 / 2)\<^sup>2" unfolding r sin_45 ..
    also have "\<dots> = 1 / 2" by (simp add: power_divide)
    finally show ?thesis by (simp add: haversine_a_def Let_def radians_def)
  qed
  have s: "math_sqrt (1 / 2) = Inr (sqrt (1 / 2))"
    by (simp add: math_sqrt_def)
  have "0 \<le> sqrt (1 / 2 :: real)" and "sqrt (1 / 2 :: real) \<le> 1"
    by (simp_all add: real_sqrt_le_1_iff del: real_sqrt_divide)
  then have "\<not> (sqrt (1 / 2 :: real) < - 1 \<or> 1 < sqrt (1 / 2 :: real))"
    by linarith
  then have t: "math_asin (sqrt (1 / 2)) = Inr (arcsin (sqrt (1 / 2)))"
    unfolding math_asin_def by simp
  have "sqrt (1 / 2) = sin (pi / 4)"
    by (simp add: sin_45 real_sqrt_divide real_div_sqrt)
  then have p: "arcsin (sqrt (1 / 2)) = pi / 4"
    by (simp add: arcsin_sin)
  have "haversine 0 0 0 90 = Inr (6371 * (2 * (pi / 4)))"
    unfolding haversine_def Let_def a s sum.case t p ..
  then show ?thesis
    by simp
qed

text \<open>
  C8: two codes that are identical after uppercasing give the Equal result, whatever
  their letter case: the string "They are equal", which is not a number (so not the
  number 0) and is not a not-found message.
\<close>

theorem equal_codes_give_equal_result:
  assumes "upper iso1 = upper iso2"
  shows "compute_distance df iso1 iso2 = Inr (Str equal_msg)
       \<and> (\<forall>d. compute_distance df iso1 iso2 \<noteq> Inr (Num d))
       \<and> compute_distance df iso1 iso2 \<noteq> Inr (Num 0)
       \<and> (\<forall>x y. compute_distance df iso1 iso2 \<noteq> Inr (Str (not_found_msg x y)))"
proof -
  have eq: "compute_distance df iso1 iso2 = Inr (Str equal_msg)"
    using assms by (simp add: compute_distance_def Let_def)
  have "equal_msg \<noteq> not_found_msg x y" for x y
    using not_found_ne_equal [of x y] by simp
  with eq show ?thesis
    by simp
qed

theorem equal_codes_give_equal_result_witness:
  "upper ''usa'' = upper ''USA''
   \<and> compute_distance [\<lparr>alpha3 = ''USA'', latitude = 38, longitude = - 97\<rparr>] ''usa'' ''USA''
       = Inr (Str ''They are equal'')
   \<and> compute_distance [\<lparr>alpha3 = ''USA'', latitude = 38, longitude = - 97\<rparr>] ''usa'' ''USA''
       \<noteq> Inr (Num 0)"
proof -
  have h: "upper ''usa'' = upper ''USA''"
    by (simp add: upper_usa upper_USA)
  show ?thesis
    using h equal_codes_give_equal_result [OF h,
        of "[\<lparr>alpha3 = ''USA'', latitude = 38, longitude = - 97\<rparr>]"]
    by (simp add: equal_msg_def)
qed

text \<open>
  C9: the equality check comes before the table lookup. For every code \<open>X\<close> and every
  table, also one that does not hold \<open>X\<close> (the empty table holds no code at all),
  \<open>compute_distance(X, X)\<close> is the Equal result and never a not-found message.
\<close>

theorem equal_check_precedes_lookup:
  "compute_distance df x x = Inr (Str equal_msg)
   \<and> compute_distance [] x x = Inr (Str equal_msg)
   \<and> compute_distance df x x \<noteq> Inr (Str (not_found_msg (upper x) (upper x)))"
proof -
  have eq: "compute_distance t x x = Inr (Str equal_msg)" for t
    by (simp add: compute_distance_def Let_def)
  have "equal_msg \<noteq> not_found_msg (upper x) (upper x)"
    using not_found_ne_equal [of "upper x" "upper x"] by simp
  with eq show ?thesis
    by simp
qed

theorem equal_check_precedes_lookup_witness:
  "upper ''ZZZ'' \<notin> set (codes [\<lparr>alpha3 = ''USA'', latitude = 38, longitude = - 97\<rparr>])
   \<and> compute_distance [\<lparr>alpha3 = ''USA'', latitude = 38, longitude = - 97\<rparr>] ''ZZZ'' ''ZZZ''
       = Inr (Str ''They are equal'')"
  using equal_check_precedes_lookup
    [of "[\<lparr>alpha3 = ''USA'', latitude = 38, longitude = - 97\<rparr>]" "''ZZZ''"]
  by (simp add: equal_msg_def codes_def upper_ZZZ)

section \<open>Properties of the co-mention counter\<close>

lemma get_count_incr: "get_count (incr k c) k' = (if k' = k then get_count c k + 1 else get_count c k')"
  by (induction k c rule: incr.induct) (auto simp: get_count_def)

lemma get_count_fold_incr: "get_count (fold incr ps c) k = get_count c k + count_list ps k"
  by (induction ps arbitrary: c) (auto simp: get_count_incr)

lemma keys_incr: "keys (incr k c) = insert k (keys c)"
  by (induction k c rule: incr.induct) (auto simp: keys_def)

lemma keys_fold_incr: "keys (fold incr ps c) = keys c \<union> set ps"
  by (induction ps arbitrary: c) (auto simp: keys_incr)

lemma combinations2_subset: "(a, b) \<in> set (combinations2 xs) \<Longrightarrow> a \<in> set xs \<and> b \<in> set xs"
  by (induction xs) auto

lemma distinct_combinations2: "distinct xs \<Longrightarrow> distinct (combinations2 xs)"
proof (induction xs)
  case Nil
  then show ?case by simp
next
  case (Cons x xs)
  have "distinct (map (Pair x) xs)"
    using Cons.prems by (simp add: distinct_map inj_on_def)
  moreover have "set (map (Pair x) xs) \<inter> set (combinations2 xs) = {}"
    using Cons.prems combinations2_subset [of _ _ xs] by auto
  ultimately show ?case
    using Cons by simp
qed

lemma uniq_strict: "sorted_wrt (<) (sorted_list_of_set (set lst))"
  by simp

lemma count_list_distinct: "distinct ps \<Longrightarrow> count_list ps k = (if k \<in> set ps then 1 else 0)"
  by (induction ps) auto

lemma mem_combinations2:
  fixes xs :: "'a::linorder list"
  shows "sorted_wrt (<) xs \<Longrightarrow>
    (a, b) \<in> set (combinations2 xs) \<longleftrightarrow> a \<in> set xs \<and> b \<in> set xs \<and> a < b"
proof (induction xs)
  case Nil
  then show ?case by simp
next
  case (Cons x xs)
  then have lt: "\<forall>y\<in>set xs. x < y" and st: "sorted_wrt (<) xs"
    by simp_all
  show ?case
    using lt Cons.IH [OF st] by (auto dest: combinations2_subset)
qed

lemma distinct_uniq: "distinct (sorted_list_of_set (set lst))"
  by simp

lemma get_count_count_record:
  "get_count (count_record lst counter) (a, b) =
     get_count counter (a, b) + (if a \<in> set lst \<and> b \<in> set lst \<and> a < b then 1 else 0)"
proof -
  let ?uniq = "sorted_list_of_set (set lst)"
  have "count_list (combinations2 ?uniq) (a, b) = (if (a, b) \<in> set (combinations2 ?uniq) then 1 else 0)"
    by (rule count_list_distinct) (rule distinct_combinations2 [OF distinct_uniq])
  also have "\<dots> = (if a \<in> set lst \<and> b \<in> set lst \<and> a < b then 1 else 0)"
    using mem_combinations2 [OF uniq_strict, of a b lst] by simp
  finally show ?thesis
    by (simp add: count_record_def Let_def get_count_fold_incr)
qed

lemma keys_count_record:
  "keys (count_record lst counter) = keys counter \<union> {(a, b). a \<in> set lst \<and> b \<in> set lst \<and> a < b}"
proof -
  have "set (combinations2 (sorted_list_of_set (set lst))) = {(a, b). a \<in> set lst \<and> b \<in> set lst \<and> a < b}"
    using mem_combinations2 [OF uniq_strict, of _ _ lst] by auto
  then show ?thesis
    by (simp add: count_record_def Let_def keys_fold_incr)
qed

lemma keys_fold_count_record:
  "keys (fold count_record ls counter) =
     keys counter \<union> {(a, b). \<exists>lst\<in>set ls. a \<in> set lst \<and> b \<in> set lst \<and> a < b}"
  by (induction ls arbitrary: counter) (auto simp: keys_count_record)

lemma dropna_append: "dropna (xs @ ys) = dropna xs @ dropna ys"
  by (simp add: dropna_def map_filter_def)

lemma dropna_None: "dropna (None # xs) = dropna xs"
  by (simp add: dropna_def map_filter_def)

lemma dropna_Some: "dropna (Some x # xs) = x # dropna xs"
  by (simp add: dropna_def map_filter_def)

lemma count_record_Nil: "count_record [] counter = counter"
  by (simp add: count_record_def)

lemma keys_count_co_mentions:
  "(a, b) \<in> keys (count_co_mentions df) \<Longrightarrow> a < b"
proof -
  assume "(a, b) \<in> keys (count_co_mentions df)"
  then have "(a, b) \<in> keys ([] :: (string \<times> string) counter)
      \<union> {(a, b). \<exists>lst\<in>set (dropna (map countries_mentioned_list df)).
                  a \<in> set lst \<and> b \<in> set lst \<and> a < b}"
    unfolding count_co_mentions_def keys_fold_count_record .
  then show "a < b"
    by (auto simp: keys_def)
qed

lemma count_dup_record:
  "count_co_mentions [\<lparr>countries_mentioned_list = Some [''USA'', ''USA'', ''CAN''], subjareas = None\<rparr>]
     = [((''CAN'', ''USA''), 1)]"
  by code_simp

text \<open>The three records of the specification's example, with the keys in the order
  in which the loop first meets them.\<close>

lemma count_spec_example:
  "count_co_mentions
     [\<lparr>countries_mentioned_list = Some [''USA'', ''CAN''], subjareas = None\<rparr>,
      \<lparr>countries_mentioned_list = Some [''USA'', ''CAN'', ''MEX''], subjareas = None\<rparr>,
      \<lparr>countries_mentioned_list = Some [''MEX'', ''CAN''], subjareas = None\<rparr>]
     = [((''CAN'', ''USA''), 2), ((''CAN'', ''MEX''), 2), ((''MEX'', ''USA''), 1)]"
  by code_simp

lemma count_record_dup: "count_record [''USA'', ''USA'', ''CAN''] [] = [((''CAN'', ''USA''), 1)]"
  by code_simp

text \<open>
  C4: one record increments a pair at most once, also when its list repeats a code,
  and the two orders of a pair together at most once; a self-pair is never incremented
  and is never a key; every key \<open>(a, b)\<close> of the counter has \<open>a < b\<close>; an empty list
  leaves the counter as it is, and a row whose list is missing or empty does not change
  the result of the counting loop.
\<close>

theorem co_mention_counting_invariants:
  "get_count (count_record lst counter) (a, b) \<le> get_count counter (a, b) + 1
   \<and> get_count (count_record lst counter) (a, b) + get_count (count_record lst counter) (b, a)
       \<le> get_count counter (a, b) + get_count counter (b, a) + 1
   \<and> get_count (count_record lst counter) (a, a) = get_count counter (a, a)
   \<and> (a, a) \<notin> keys (count_co_mentions df)
   \<and> ((a, b) \<in> keys (count_co_mentions df) \<longrightarrow> a < b)
   \<and> count_record [] counter = counter
   \<and> (countries_mentioned_list r = None \<or> countries_mentioned_list r = Some []
        \<longrightarrow> count_co_mentions (df1 @ r # df2) = count_co_mentions (df1 @ df2))"
proof -
  have 1: "get_count (count_record lst counter) (a, b) \<le> get_count counter (a, b) + 1"
    by (simp add: get_count_count_record)
  have 2: "get_count (count_record lst counter) (a, b) + get_count (count_record lst counter) (b, a)
       \<le> get_count counter (a, b) + get_count counter (b, a) + 1"
    by (auto simp: get_count_count_record)
  have 3: "get_count (count_record lst counter) (a, a) = get_count counter (a, a)"
    by (simp add: get_count_count_record)
  have 4: "(a, a) \<notin> keys (count_co_mentions df)"
    using keys_count_co_mentions [of a a df] by auto
  have 5: "(a, b) \<in> keys (count_co_mentions df) \<longrightarrow> a < b"
    using keys_count_co_mentions [of a b df] by blast
  have 6: "count_co_mentions (df1 @ r # df2) = count_co_mentions (df1 @ df2)"
    if "countries_mentioned_list r = None \<or> countries_mentioned_list r = Some []"
    using that
    by (auto simp: count_co_mentions_def dropna_append dropna_None dropna_Some count_record_Nil)
  from 1 2 3 4 5 6 show ?thesis
    by (simp add: count_record_Nil)
qed

theorem co_mention_counting_invariants_witness:
  "get_count (count_record [''USA'', ''USA'', ''CAN''] []) (''CAN'', ''USA'') = 1
   \<and> (''CAN'', ''USA'') \<in> keys (count_co_mentions
         [\<lparr>countries_mentioned_list = Some [''USA'', ''USA'', ''CAN''], subjareas = None\<rparr>])
   \<and> ''CAN'' < ''USA''
   \<and> countries_mentioned_list \<lparr>countries_mentioned_list = None, subjareas = None\<rparr> = None
   \<and> count_co_mentions
         ([\<lparr>countries_mentioned_list = Some [''USA'', ''USA'', ''CAN''], subjareas = None\<rparr>]
          @ \<lparr>countries_mentioned_list = None, subjareas = None\<rparr> # [])
       = count_co_mentions
         ([\<lparr>countries_mentioned_list = Some [''USA'', ''USA'', ''CAN''], subjareas = None\<rparr>] @ [])"
proof -
  let ?df = "[\<lparr>countries_mentioned_list = Some [''USA'', ''USA'', ''CAN''], subjareas = None\<rparr>]"
  let ?r = "\<lparr>countries_mentioned_list = None, subjareas = None\<rparr>"
  have k: "(''CAN'', ''USA'') \<in> keys (count_co_mentions ?df)"
    unfolding count_dup_record by (simp add: keys_def)
  have n: "countries_mentioned_list ?r = None"
    by simp
  have g: "get_count (count_record [''USA'', ''USA'', ''CAN''] []) (''CAN'', ''USA'') = 1"
    unfolding count_record_dup by (simp add: get_count_def)
  from co_mention_counting_invariants
    [of "[''USA'', ''USA'', ''CAN'']" "[]" "''CAN''" "''USA''" ?df ?r ?df "[]"] k n
  have "''CAN'' < ''USA''"
    and "count_co_mentions (?df @ ?r # []) = count_co_mentions (?df @ [])"
    by blast+
  with g k n show ?thesis
    by blast
qed

section \<open>Properties of the subject breakdown\<close>

lemma fold_fixed: "(\<And>x. x \<in> set xs \<Longrightarrow> f x c = c) \<Longrightarrow> fold f xs c = c"
  by (induction xs) simp_all

lemma strip_blank:
  assumes "\<forall>ch\<in>set l. isspace ch"
  shows "strip l = []"
proof -
  have d: "dropWhile isspace l = []"
    using assms by (induction l) simp_all
  show ?thesis
    unfolding strip_def d by simp
qed

lemma count_entry_blank:
  assumes "\<forall>l\<in>set (split_comma entry). \<forall>ch\<in>set l. isspace ch"
  shows "count_entry entry counter = counter"
  unfolding count_entry_def
  by (rule fold_fixed) (simp add: strip_blank assms)

lemma dropna_set: "x \<in> set (dropna col) \<longleftrightarrow> Some x \<in> set col"
  by (induction col) (auto simp: dropna_def map_filter_def)

lemma plot_empty_counter:
  assumes "count_pair_subjects df c1 c2 = []"
  shows "plot_pair_mentions_by_subject sort_values df (c1, c2) top_n
           = ([], [Print (no_records_msg c1 c2)])"
  using assms by (simp add: plot_pair_mentions_by_subject_def)

lemma no_match_counter:
  assumes "\<forall>r\<in>set df. \<not> mentions_both c1 c2 (countries_mentioned_list r)"
  shows "count_pair_subjects df c1 c2 = []"
proof -
  have "filter (\<lambda>r. mentions_both c1 c2 (countries_mentioned_list r)) df = []"
    using assms by (simp add: filter_empty_conv)
  then show ?thesis
    by (simp add: count_pair_subjects_def dropna_def map_filter_def)
qed

lemma blank_subjects_counter:
  assumes "\<forall>r\<in>set df. mentions_both c1 c2 (countries_mentioned_list r) \<longrightarrow>
             (\<forall>s. subjareas r = Some s \<longrightarrow>
                  (\<forall>l\<in>set (split_comma s). \<forall>ch\<in>set l. isspace ch))"
  shows "count_pair_subjects df c1 c2 = []"
  unfolding count_pair_subjects_def Let_def
proof (rule fold_fixed)
  fix entry
  assume "entry \<in> set (dropna (map subjareas
            (filter (\<lambda>r. mentions_both c1 c2 (countries_mentioned_list r)) df)))"
  then obtain r where "r \<in> set df" "mentions_both c1 c2 (countries_mentioned_list r)"
    "subjareas r = Some entry"
    by (auto simp: dropna_set)
  with assms have "\<forall>l\<in>set (split_comma entry). \<forall>ch\<in>set l. isspace ch"
    by blast
  then show "count_entry entry [] = []"
    by (rule count_entry_blank)
qed

lemma split_blank: "split_comma '' , '' = ['' '', '' '']"
  by simp

lemma space_isspace: "isspace CHR '' ''"
  by (simp add: isspace_def)

text \<open>
  C5: when no record's country list contains both codes of the pair, the function
  returns the empty series, prints the diagnostic line, and shows no chart.
\<close>

theorem no_matching_record_gives_empty_result:
  assumes "\<forall>r\<in>set df. \<forall>lst. countries_mentioned_list r = Some lst
             \<longrightarrow> \<not> (c1 \<in> set lst \<and> c2 \<in> set lst)"
  shows "plot_pair_mentions_by_subject sort_values df (c1, c2) top_n
           = ([], [Print (no_records_msg c1 c2)])
       \<and> (\<forall>title series. BarChart title series
             \<notin> set (snd (plot_pair_mentions_by_subject sort_values df (c1, c2) top_n)))"
proof -
  have "\<forall>r\<in>set df. \<not> mentions_both c1 c2 (countries_mentioned_list r)"
    using assms by (auto simp: mentions_both_def split: option.splits)
  then have "count_pair_subjects df c1 c2 = []"
    by (rule no_match_counter)
  then have "plot_pair_mentions_by_subject sort_values df (c1, c2) top_n
           = ([], [Print (no_records_msg c1 c2)])"
    by (rule plot_empty_counter)
  then show ?thesis
    by simp
qed

theorem no_matching_record_gives_empty_result_witness:
  "''gbr'' \<notin> set [''usa'', ''fra'']
   \<and> plot_pair_mentions_by_subject (\<lambda>s. s)
        [\<lparr>countries_mentioned_list = Some [''usa'', ''fra''], subjareas = Some ''MEDI''\<rparr>,
         \<lparr>countries_mentioned_list = None, subjareas = Some ''PHYS''\<rparr>]
        (''usa'', ''gbr'') None
       = ([], [Print ''No records found mentioning both usa and gbr.''])"
proof -
  let ?df = "[\<lparr>countries_mentioned_list = Some [''usa'', ''fra''], subjareas = Some ''MEDI''\<rparr>,
              \<lparr>countries_mentioned_list = None, subjareas = Some ''PHYS''\<rparr>]"
  have h: "\<forall>r\<in>set ?df. \<forall>lst. countries_mentioned_list r = Some lst
             \<longrightarrow> \<not> (''usa'' \<in> set lst \<and> ''gbr'' \<in> set lst)"
    by simp
  from no_matching_record_gives_empty_result [OF h, of "\<lambda>s. s" None]
  have "plot_pair_mentions_by_subject (\<lambda>s. s) ?df (''usa'', ''gbr'') None
          = ([], [Print ''No records found mentioning both usa and gbr.''])"
    by (simp add: no_records_msg_def)
  then show ?thesis
    by simp
qed

text \<open>
  C10: whenever the counter of subject labels is empty, the function returns the empty
  series and prints the no-records line, and shows no chart. The counter is empty also
  when records match the pair but each of them has a missing subject field or a subject
  string whose labels are all empty or whitespace.
\<close>

theorem empty_subject_counter_gives_empty_result:
  "(count_pair_subjects df c1 c2 = [] \<longrightarrow>
      plot_pair_mentions_by_subject sort_values df (c1, c2) top_n
        = ([], [Print (no_records_msg c1 c2)])
      \<and> (\<forall>title series. BarChart title series
            \<notin> set (snd (plot_pair_mentions_by_subject sort_values df (c1, c2) top_n))))
   \<and> ((\<forall>r\<in>set df. mentions_both c1 c2 (countries_mentioned_list r) \<longrightarrow>
          (\<forall>s. subjareas r = Some s \<longrightarrow>
               (\<forall>l\<in>set (split_comma s). \<forall>ch\<in>set l. isspace ch)))
        \<longrightarrow> count_pair_subjects df c1 c2 = [])"
proof -
  have "plot_pair_mentions_by_subject sort_values df (c1, c2) top_n
        = ([], [Print (no_records_msg c1 c2)])
      \<and> (\<forall>title series. BarChart title series
            \<notin> set (snd (plot_pair_mentions_by_subject sort_values df (c1, c2) top_n)))"
    if "count_pair_subjects df c1 c2 = []"
    using plot_empty_counter [OF that, of sort_values top_n] by simp
  then show ?thesis
    using blank_subjects_counter [of df c1 c2] by blast
qed

theorem empty_subject_counter_gives_empty_result_witness:
  "mentions_both ''usa'' ''gbr'' (Some [''usa'', ''gbr''])
   \<and> split_comma '' , '' = ['' '', '' '']
   \<and> isspace CHR '' ''
   \<and> count_pair_subjects
        [\<lparr>countries_mentioned_list = Some [''usa'', ''gbr''], subjareas = Some '' , ''\<rparr>,
         \<lparr>countries_mentioned_list = Some [''gbr'', ''usa''], subjareas = None\<rparr>]
        ''usa'' ''gbr'' = []
   \<and> plot_pair_mentions_by_subject (\<lambda>s. s)
        [\<lparr>countries_mentioned_list = Some [''usa'', ''gbr''], subjareas = Some '' , ''\<rparr>,
         \<lparr>countries_mentioned_list = Some [''gbr'', ''usa''], subjareas = None\<rparr>]
        (''usa'', ''gbr'') None
       = ([], [Print ''No records found mentioning both usa and gbr.''])"
proof -
  let ?df = "[\<lparr>countries_mentioned_list = Some [''usa'', ''gbr''], subjareas = Some '' , ''\<rparr>,
              \<lparr>countries_mentioned_list = Some [''gbr'', ''usa''], subjareas = None\<rparr>]"
  have m: "mentions_both ''usa'' ''gbr'' (Some [''usa'', ''gbr''])"
    by (simp add: mentions_both_def)
  have h: "\<forall>r\<in>set ?df. mentions_both ''usa'' ''gbr'' (countries_mentioned_list r) \<longrightarrow>
          (\<forall>s. subjareas r = Some s \<longrightarrow>
               (\<forall>l\<in>set (split_comma s). \<forall>ch\<in>set l. isspace ch))"
    using split_blank space_isspace by simp
  note t = empty_subject_counter_gives_empty_result [of ?df "''usa''" "''gbr''" "\<lambda>s. s" None]
  from t h have c: "count_pair_subjects ?df ''usa'' ''gbr'' = []"
    by blast
  with t have "plot_pair_mentions_by_subject (\<lambda>s. s) ?df (''usa'', ''gbr'') None
          = ([], [Print (no_records_msg ''usa'' ''gbr'')])"
    by blast
  then have "plot_pair_mentions_by_subject (\<lambda>s. s) ?df (''usa'', ''gbr'') None
          = ([], [Print ''No records found mentioning both usa and gbr.''])"
    by (simp add: no_records_msg_def)
  with m c split_blank space_isspace show ?thesis
    by blast
qed

end
